theory Spec2Isabelle
  imports Main "HOL-Library.Word"
begin

section \<open>The event model of src/core/EventData.cpp\<close>

text \<open>
  The theory embeds the member functions of \<open>EventLevel\<close>, \<open>EventType\<close> and \<open>EventData\<close>
  that EventData.cpp defines. Mutation of \<open>*this\<close> is state passing: a setter takes the
  object and returns the updated one. A function that can write to the warning log
  returns, next to its result, the lines it has written.
\<close>

subsection \<open>Strings, numbers, translation and the warning log\<close>

text \<open>
  \<open>QString\<close> is a \<open>string\<close>. \<open>startsWith\<close> and \<open>mid\<close> are the two \<open>QString\<close> functions
  that \<open>setLocation\<close> calls; \<open>mid\<close> with one argument returns the rest of the string from
  the position on.
\<close>

definition startsWith :: "string \<Rightarrow> string \<Rightarrow> bool" where
  "startsWith s p = (take (length p) s = p)"

definition mid :: "string \<Rightarrow> nat \<Rightarrow> string" where
  "mid s pos = drop pos s"

text \<open>
  \<open>QString::number\<close> of an \<open>int\<close>, in base ten. \<open>digitChar\<close> is only applied to numbers
  below ten.
\<close>

definition digitChar :: "nat \<Rightarrow> char" where
  "digitChar k = ''0123456789'' ! k"

fun digits :: "nat \<Rightarrow> string" where
  "digits n = (if n < 10 then [digitChar n] else digits (n div 10) @ [digitChar (n mod 10)])"

declare digits.simps [simp del]

definition number :: "int \<Rightarrow> string" where
  "number n = (if n < 0 then CHR ''-'' # digits (nat (- n)) else digits (nat n))"

text \<open>
  C++ integer division and remainder truncate towards zero; HOL's \<open>div\<close> and \<open>mod\<close> round
  down. \<open>uiDuration\<close> divides with the source's rule.
\<close>

definition c_div :: "int \<Rightarrow> int \<Rightarrow> int" where
  "c_div a b = sgn a * sgn b * (\<bar>a\<bar> div \<bar>b\<bar>)"

definition c_mod :: "int \<Rightarrow> int \<Rightarrow> int" where
  "c_mod a b = a - b * c_div a b"

text \<open>
  \<open>QApplication::translate(context, sourceText)\<close> looks the text up in the installed
  translations, which are not part of the sources: the functions that call it take the
  lookup as a parameter. With no translation installed the lookup returns the source
  text, which is \<open>untranslated\<close>.
\<close>

type_synonym translator = "string \<Rightarrow> string \<Rightarrow> string"

definition untranslated :: translator where
  "untranslated context sourceText = sourceText"

text \<open>
  A line of the warning log is the list of the items streamed to \<open>qWarning()\<close>. A
  function that can log returns the lines it wrote, oldest first.
\<close>

type_synonym log_line = "string list"

subsection \<open>EventLevel\<close>

text \<open>
  Modelled from the spec: the header EventData.h, which declares the classes and their
  enumerations, is not among the sources. \<open>Level\<close> has the enumerators that
  EventData.cpp names, and \<open>EventLevel\<close> the one member \<open>level\<close> that it reads and writes.
\<close>

datatype Level = Info | Warning | Alarm | Critical

record EventLevel =
  level :: Level

text \<open>
  \<open>EventLevel::uiString\<close>. The \<open>default\<close> branch of the switch (\<open>Unknown\<close>) is taken by no
  enumerator.
\<close>

definition EventLevel_uiString :: "translator \<Rightarrow> EventLevel \<Rightarrow> string" where
  "EventLevel_uiString tr l =
     (case level l of
        Info \<Rightarrow> tr ''EventLevel'' ''Info''
      | Warning \<Rightarrow> tr ''EventLevel'' ''Warning''
      | Alarm \<Rightarrow> tr ''EventLevel'' ''Alarm''
      | Critical \<Rightarrow> tr ''EventLevel'' ''Critical'')"

text \<open>
  \<open>EventLevel::operator=(const QString &)\<close>: the updated object, and the log lines
  written, of which the function has none.
\<close>

definition EventLevel_assign :: "EventLevel \<Rightarrow> string \<Rightarrow> EventLevel \<times> log_line list" where
  "EventLevel_assign l str =
     (if str = ''info'' then (l\<lparr>level := Info\<rparr>, [])
      else if str = ''warn'' then (l\<lparr>level := Warning\<rparr>, [])
      else if str = ''alrm'' \<or> str = ''alarm'' then (l\<lparr>level := Alarm\<rparr>, [])
      else if str = ''critical'' then (l\<lparr>level := Critical\<rparr>, [])
      else (l\<lparr>level := Info\<rparr>, []))"

subsection \<open>EventType\<close>

text \<open>
  Modelled from the spec: the enumeration \<open>EventType::Type\<close> of the missing header
  EventData.h, with the enumerators that EventData.cpp names, and the class with its one
  member.
\<close>

datatype Type =
    UnknownType
  | CameraMotion | CameraContinuous | CameraNotFound | CameraVideoLost | CameraAudioLost
  | SystemDiskSpace | SystemCrash | SystemBoot | SystemShutdown | SystemReboot
  | SystemPowerOutage

record EventType =
  type :: Type

definition EventType_uiString :: "translator \<Rightarrow> EventType \<Rightarrow> string" where
  "EventType_uiString tr t =
     (case type t of
        CameraMotion \<Rightarrow> tr ''EventType'' ''Motion''
      | CameraContinuous \<Rightarrow> tr ''EventType'' ''Continuous''
      | CameraNotFound \<Rightarrow> tr ''EventType'' ''Not Found''
      | CameraVideoLost \<Rightarrow> tr ''EventType'' ''Video Lost''
      | CameraAudioLost \<Rightarrow> tr ''EventType'' ''Audio Lost''
      | SystemDiskSpace \<Rightarrow> tr ''EventType'' ''Disk Space''
      | SystemCrash \<Rightarrow> tr ''EventType'' ''Crash''
      | SystemBoot \<Rightarrow> tr ''EventType'' ''Startup''
      | SystemShutdown \<Rightarrow> tr ''EventType'' ''Shutdown''
      | SystemReboot \<Rightarrow> tr ''EventType'' ''Reboot''
      | SystemPowerOutage \<Rightarrow> tr ''EventType'' ''Power Lost''
      | UnknownType \<Rightarrow> tr ''EventType'' ''Unknown'')"

text \<open>\<open>EventType::operator=(const QString &)\<close>; it writes no log line either.\<close>

definition EventType_assign :: "EventType \<Rightarrow> string \<Rightarrow> EventType \<times> log_line list" where
  "EventType_assign t str =
     (if str = ''motion'' then (t\<lparr>type := CameraMotion\<rparr>, [])
      else if str = ''continuous'' then (t\<lparr>type := CameraContinuous\<rparr>, [])
      else if str = ''not found'' then (t\<lparr>type := CameraNotFound\<rparr>, [])
      else if str = ''video signal loss'' then (t\<lparr>type := CameraVideoLost\<rparr>, [])
      else if str = ''audio signal loss'' then (t\<lparr>type := CameraAudioLost\<rparr>, [])
      else if str = ''disk-space'' then (t\<lparr>type := SystemDiskSpace\<rparr>, [])
      else if str = ''crash'' then (t\<lparr>type := SystemCrash\<rparr>, [])
      else if str = ''boot'' then (t\<lparr>type := SystemBoot\<rparr>, [])
      else if str = ''shutdown'' then (t\<lparr>type := SystemShutdown\<rparr>, [])
      else if str = ''reboot'' then (t\<lparr>type := SystemReboot\<rparr>, [])
      else if str = ''power-outage'' then (t\<lparr>type := SystemPowerOutage\<rparr>, [])
      else (t\<lparr>type := UnknownType\<rparr>, []))"

subsection \<open>QDateTime\<close>

text \<open>
  \<open>QDateTime\<close> is a class of the Qt library, outside the repository. The model keeps what
  the functions of EventData.cpp use of it: the instant (milliseconds since the epoch in
  UTC), the time specification and the offset from UTC in seconds (used under
  \<open>OffsetFromUTC\<close>, and kept 0 otherwise). The local time zone is a parameter \<open>tz\<close>, the
  offset of local time from UTC in seconds at an instant.
\<close>

datatype TimeSpec = LocalTime | UTC | OffsetFromUTC

record QDateTime =
  msecsSinceEpoch :: int
  timeSpec :: TimeSpec
  utcOffset :: int

type_synonym timezone = "int \<Rightarrow> int"

text \<open>The seconds that the date and time shown are ahead of UTC.\<close>

definition offsetFromUtc :: "timezone \<Rightarrow> QDateTime \<Rightarrow> int" where
  "offsetFromUtc tz dt =
     (case timeSpec dt of
        UTC \<Rightarrow> 0
      | OffsetFromUTC \<Rightarrow> utcOffset dt
      | LocalTime \<Rightarrow> tz (msecsSinceEpoch dt))"

text \<open>The date and time shown, in milliseconds.\<close>

definition wallClock :: "timezone \<Rightarrow> QDateTime \<Rightarrow> int" where
  "wallClock tz dt = msecsSinceEpoch dt + offsetFromUtc tz dt * 1000"

text \<open>\<open>addSecs\<close> returns a new object, \<open>s\<close> seconds later; it does not change its receiver.\<close>

definition addSecs :: "QDateTime \<Rightarrow> int \<Rightarrow> QDateTime" where
  "addSecs dt s = dt\<lparr>msecsSinceEpoch := msecsSinceEpoch dt + s * 1000\<rparr>"

text \<open>\<open>toLocalTime\<close>: the same instant, shown in local time.\<close>

definition toLocalTime :: "QDateTime \<Rightarrow> QDateTime" where
  "toLocalTime dt = dt\<lparr>timeSpec := LocalTime, utcOffset := 0\<rparr>"

text \<open>
  \<open>setUtcOffset(seconds)\<close> keeps the date and time shown and declares them to be
  \<open>seconds\<close> ahead of UTC, so the object refers to another instant; the time
  specification becomes \<open>OffsetFromUTC\<close>, or \<open>UTC\<close> when \<open>seconds\<close> is 0.
\<close>

definition setUtcOffset :: "timezone \<Rightarrow> QDateTime \<Rightarrow> int \<Rightarrow> QDateTime" where
  "setUtcOffset tz dt seconds =
     \<lparr>msecsSinceEpoch = wallClock tz dt - seconds * 1000,
      timeSpec = (if seconds = 0 then UTC else OffsetFromUTC),
      utcOffset = seconds\<rparr>"

subsection \<open>EventData\<close>

text \<open>
  Modelled from the spec: the declaration of class \<open>EventData\<close> in the missing header
  EventData.h. The record has the members that EventData.cpp reads and writes, under
  their names: \<open>qint64\<close> identifiers, the two start dates, the \<open>int\<close> duration and
  location id, and the \<open>qint16\<close> time zone offset of the server in minutes. The
  back-reference to the server, used only by the display lookups, is left out.
\<close>

record EventData =
  m_eventId :: int
  m_mediaId :: int
  m_level :: EventLevel
  m_type :: EventType
  m_utcStartDate :: QDateTime
  m_localStartDate :: QDateTime
  m_durationInSeconds :: int
  m_locationId :: int
  m_serverDateTzOffsetMins :: "16 word"

text \<open>
  Modelled from the spec: the accessors that the missing header defines inline; each
  returns its member.
\<close>

definition durationInSeconds :: "EventData \<Rightarrow> int" where
  "durationInSeconds e = m_durationInSeconds e"

definition localStartDate :: "EventData \<Rightarrow> QDateTime" where
  "localStartDate e = m_localStartDate e"

definition utcStartDate :: "EventData \<Rightarrow> QDateTime" where
  "utcStartDate e = m_utcStartDate e"

definition locationId :: "EventData \<Rightarrow> int" where
  "locationId e = m_locationId e"

definition serverDateTzOffsetMins :: "EventData \<Rightarrow> 16 word" where
  "serverDateTzOffsetMins e = m_serverDateTzOffsetMins e"

text \<open>
  The functions of EventData.cpp, in the order of the file. A parameter that has the
  name of an accessor is written with a prime.
\<close>

definition localEndDate :: "EventData \<Rightarrow> QDateTime" where
  "localEndDate e = addSecs (m_localStartDate e) (max 0 (m_durationInSeconds e))"

text \<open>
  \<open>Q_ASSERT\<close> ends the program when its condition fails, in a build that checks
  assertions; that is the error branch.
  \<open>int(serverDateTzOffsetMins())\<close> reads the 16-bit member as a signed number.
\<close>

datatype error = AssertionFailed

definition serverStartDate :: "timezone \<Rightarrow> EventData \<Rightarrow> error + QDateTime" where
  "serverStartDate tz e =
     (if timeSpec (m_utcStartDate e) \<noteq> UTC then Inl AssertionFailed
      else
        let dateTzOffsetSeconds = sint (serverDateTzOffsetMins e) * 60;
            result = addSecs (m_utcStartDate e) dateTzOffsetSeconds;
            result = setUtcOffset tz result dateTzOffsetSeconds
        in Inr result)"

definition hasDuration :: "EventData \<Rightarrow> bool" where
  "hasDuration e = (durationInSeconds e > 0)"

text \<open>
  In \<open>serverEndDate\<close> the statement \<open>result.addSecs(...)\<close> computes a new object and
  drops it: \<open>result\<close> is returned as it was.
\<close>

definition serverEndDate :: "timezone \<Rightarrow> EventData \<Rightarrow> error + QDateTime" where
  "serverEndDate tz e =
     (case serverStartDate tz e of
        Inl err \<Rightarrow> Inl err
      | Inr result \<Rightarrow>
          if \<not> hasDuration e then Inr result
          else
            let dropped = addSecs result (max 0 (m_durationInSeconds e))
            in Inr result)"

definition setUtcStartDate :: "QDateTime \<Rightarrow> EventData \<Rightarrow> EventData" where
  "setUtcStartDate utcStartDate' e =
     e\<lparr>m_utcStartDate := utcStartDate', m_localStartDate := toLocalTime utcStartDate'\<rparr>"

definition setDurationInSeconds :: "int \<Rightarrow> EventData \<Rightarrow> EventData" where
  "setDurationInSeconds durationInSeconds' e =
     (if durationInSeconds' < - 1 then e\<lparr>m_durationInSeconds := - 1\<rparr>
      else e\<lparr>m_durationInSeconds := durationInSeconds'\<rparr>)"

definition inProgress :: "EventData \<Rightarrow> bool" where
  "inProgress e = (durationInSeconds e < 0)"

definition setInProgress :: "EventData \<Rightarrow> EventData" where
  "setInProgress e = setDurationInSeconds (- 1) e"

definition setLocationId :: "int \<Rightarrow> EventData \<Rightarrow> EventData" where
  "setLocationId locationId' e = e\<lparr>m_locationId := locationId'\<rparr>"

definition setServerDateTzOffsetMins :: "16 word \<Rightarrow> EventData \<Rightarrow> EventData" where
  "setServerDateTzOffsetMins dateTzOffsetMins e =
     e\<lparr>m_serverDateTzOffsetMins := dateTzOffsetMins\<rparr>"

text \<open>
  \<open>setLocation\<close> calls \<open>QString::toUInt(&ok)\<close> of the Qt library, here the parameter
  \<open>toUInt\<close>: it returns the number read, an \<open>unsigned int\<close>, and the flag \<open>ok\<close>. The
  assignment of that number to the \<open>int\<close> member converts it, which is \<open>uint_to_int\<close>:
  numbers from \<open>2 ^ 31\<close> on wrap around to negative ones.
\<close>

definition uint_to_int :: "nat \<Rightarrow> int" where
  "uint_to_int v =
     (let w = v mod 2 ^ 32
      in if w < 2 ^ 31 then int w else int w - 2 ^ 32)"

definition invalidLocation :: "string \<Rightarrow> log_line" where
  "invalidLocation location = [''Invalid event location'', location]"

definition setLocation ::
  "(string \<Rightarrow> nat \<times> bool) \<Rightarrow> string \<Rightarrow> EventData \<Rightarrow> EventData \<times> log_line list" where
  "setLocation toUInt location e =
     (if startsWith location ''camera-'' then
        (case toUInt (mid location 7) of
           (v, ok) \<Rightarrow>
             let e1 = e\<lparr>m_locationId := uint_to_int v\<rparr>
             in if \<not> ok then (e1\<lparr>m_locationId := - 1\<rparr>, [invalidLocation location])
                else (e1, []))
      else if location \<noteq> ''system'' then
        (e\<lparr>m_locationId := - 1\<rparr>, [invalidLocation location])
      else (e\<lparr>m_locationId := - 1\<rparr>, []))"

text \<open>
  What \<open>QString::toUInt\<close> returns for a string of decimal digits: the number and \<open>true\<close>
  when it fits an \<open>unsigned int\<close>, and 0 and \<open>false\<close> when it does not, or when the string
  is empty or has another character. It stands for the library function where a location
  is evaluated. The library function also reads a number with white space around it or
  a plus sign before it; the locations evaluated here have neither.
\<close>

definition isDigit :: "char \<Rightarrow> bool" where
  "isDigit c = (48 \<le> (of_char c :: nat) \<and> (of_char c :: nat) \<le> 57)"

definition digitsValue :: "string \<Rightarrow> nat" where
  "digitsValue s = foldl (\<lambda>acc c. acc * 10 + ((of_char c :: nat) - 48)) 0 s"

definition decimalToUInt :: "string \<Rightarrow> nat \<times> bool" where
  "decimalToUInt s =
     (if s \<noteq> [] \<and> list_all isDigit s \<and> digitsValue s \<le> 4294967295
      then (digitsValue s, True) else (0, False))"

text \<open>
  \<open>durationWord\<close> appends to \<open>s\<close>; the model returns the new string.
\<close>

definition durationWord :: "string \<Rightarrow> int \<Rightarrow> string \<Rightarrow> string" where
  "durationWord s n w =
     (let s = (if s \<noteq> [] then s @ '', '' else s);
          s = s @ number n;
          s = s @ [CHR '' ''];
          s = s @ w
      in if n \<noteq> 1 then s @ [CHR ''s''] else s)"

text \<open>
  \<open>uiDuration\<close>, cut where the source can return early: \<open>uiDuration_seconds\<close> is the
  last \<open>if\<close> of the function and the final \<open>return\<close>, \<open>uiDuration_minutes\<close> the block of the
  minutes followed by it, \<open>uiDuration_hours\<close> the block of the hours followed by both.
\<close>

definition uiDuration_seconds :: "string \<Rightarrow> int \<Rightarrow> string" where
  "uiDuration_seconds re d =
     (if d \<noteq> 0 \<or> re = [] then durationWord re d ''second'' else re)"

definition uiDuration_minutes :: "string \<Rightarrow> int \<Rightarrow> int \<Rightarrow> string" where
  "uiDuration_minutes re d count =
     (if d \<ge> 60 then
        let re = durationWord re (c_div d 60) ''minute'';
            d = c_mod d 60;
            count = count + 1
        in if count = 2 then re else uiDuration_seconds re d
      else uiDuration_seconds re d)"

definition uiDuration_hours :: "string \<Rightarrow> int \<Rightarrow> int \<Rightarrow> string" where
  "uiDuration_hours re d count =
     (if d \<ge> 60 * 60 then
        let re = durationWord re (c_div d (60 * 60)) ''hour'';
            d = c_mod d (60 * 60);
            count = count + 1
        in if count = 2 then re else uiDuration_minutes re d count
      else uiDuration_minutes re d count)"

definition uiDuration :: "translator \<Rightarrow> EventData \<Rightarrow> string" where
  "uiDuration tr e =
     (if inProgress e then tr ''EventData'' ''In progress''
      else
        let re = [];
            d = max 1 (durationInSeconds e);
            count = 0
        in if d \<ge> 60 * 60 * 24 then
             uiDuration_hours (durationWord re (c_div d (60 * 60 * 24)) ''day'')
               (c_mod d (60 * 60 * 24)) (count + 1)
           else uiDuration_hours re d count)"

subsection \<open>Measures and sample values used in the statements\<close>

text \<open>
  \<open>durationWord\<close> writes one term, a number and a unit, and puts \<open>'', ''\<close> before it
  when the string already has a term. Neither a number nor a unit has a comma, so the
  terms of a duration string are one more than its commas.
\<close>

definition commas :: "string \<Rightarrow> nat" where
  "commas s = length (filter (\<lambda>c. c = CHR '','') s)"

text \<open>An event, and a date in local time, at which the theorems are instantiated.\<close>

definition sampleEvent :: EventData where
  "sampleEvent =
     \<lparr>m_eventId = 17, m_mediaId = 4,
      m_level = \<lparr>level = Warning\<rparr>, m_type = \<lparr>type = CameraMotion\<rparr>,
      m_utcStartDate = \<lparr>msecsSinceEpoch = 1600000000000, timeSpec = UTC, utcOffset = 0\<rparr>,
      m_localStartDate =
        \<lparr>msecsSinceEpoch = 1600000000000, timeSpec = LocalTime, utcOffset = 0\<rparr>,
      m_durationInSeconds = 30, m_locationId = 2, m_serverDateTzOffsetMins = - 300\<rparr>"

definition sampleLocalDate :: QDateTime where
  "sampleLocalDate = \<lparr>msecsSinceEpoch = 1600000000000, timeSpec = LocalTime, utcOffset = 0\<rparr>"

definition sampleZone :: timezone where
  "sampleZone instant = 3600"

section \<open>Properties\<close>

subsection \<open>Duration strings\<close>

lemmas uiDuration_defs =
  uiDuration_def uiDuration_hours_def uiDuration_minutes_def uiDuration_seconds_def
  inProgress_def durationInSeconds_def setDurationInSeconds_def
  durationWord_def number_def digits.simps digitChar_def c_div_def c_mod_def

lemma digitChar_no_comma:
  assumes "k < 10"
  shows "digitChar k \<noteq> CHR '',''"
proof -
  from assms have "''0123456789'' ! k \<in> set ''0123456789''"
    by (intro nth_mem) simp
  then show ?thesis unfolding digitChar_def by auto
qed

lemma digits_no_comma: "CHR '','' \<notin> set (digits n)"
proof (induction n rule: digits.induct)
  case (1 n)
  show ?case
  proof (cases "n < 10")
    case True
    then show ?thesis using digitChar_no_comma [of n] by (simp add: digits.simps)
  next
    case False
    have "n mod 10 < 10" by simp
    then have "digitChar (n mod 10) \<noteq> CHR '',''" by (rule digitChar_no_comma)
    with False 1 show ?thesis by (simp add: digits.simps [of n])
  qed
qed

lemma commas_Nil: "commas [] = 0"
  by (simp add: commas_def)

lemma commas_Cons: "commas (c # s) = (if c = CHR '','' then 1 else 0) + commas s"
  by (simp add: commas_def)

lemma commas_append: "commas (a @ b) = commas a + commas b"
  by (simp add: commas_def)

lemma commas_digits: "commas (digits n) = 0"
  using digits_no_comma [of n] by (auto simp: commas_def filter_empty_conv)

lemma commas_number: "commas (number n) = 0"
  by (simp add: number_def commas_digits commas_Cons)

lemma commas_durationWord:
  "commas w = 0 \<Longrightarrow> commas (durationWord s n w) = commas s + (if s = [] then 0 else 1)"
  by (simp add: durationWord_def Let_def commas_append commas_number commas_Cons commas_Nil)

lemma durationWord_nonempty: "durationWord s n w \<noteq> []"
  by (simp add: durationWord_def Let_def)

lemma commas_units:
  "commas ''day'' = 0" "commas ''hour'' = 0" "commas ''minute'' = 0" "commas ''second'' = 0"
  by (simp_all add: commas_Cons commas_Nil)

lemma commas_seconds:
  "commas (uiDuration_seconds re d) \<le> commas re + (if re = [] then 0 else 1)"
  by (simp add: uiDuration_seconds_def commas_durationWord commas_units)

text \<open>
  Where the blocks of the hours and of the minutes start, either nothing is written and
  \<open>count\<close> is 0, or the days are written and \<open>count\<close> is 1.
\<close>

lemma commas_minutes:
  assumes "(count = 0 \<and> re = []) \<or> (count = 1 \<and> re \<noteq> [] \<and> commas re = 0)"
  shows "commas (uiDuration_minutes re d count) \<le> 1"
proof (cases "d \<ge> 60")
  case False
  then show ?thesis
    using assms commas_seconds [of re d]
    by (auto simp: uiDuration_minutes_def commas_Nil)
next
  case True
  let ?re = "durationWord re (c_div d 60) ''minute''"
  have c: "commas ?re = commas re + (if re = [] then 0 else 1)"
    by (simp add: commas_durationWord commas_units)
  from assms show ?thesis
  proof
    assume a: "count = 0 \<and> re = []"
    then have "commas ?re = 0" using c by (simp add: commas_Nil)
    then have "commas (uiDuration_seconds ?re (c_mod d 60)) \<le> 1"
      using commas_seconds [of ?re "c_mod d 60"] by (simp add: durationWord_nonempty)
    with a True show ?thesis by (simp add: uiDuration_minutes_def Let_def)
  next
    assume a: "count = 1 \<and> re \<noteq> [] \<and> commas re = 0"
    then have "commas ?re = 1" using c by simp
    with a True show ?thesis by (simp add: uiDuration_minutes_def Let_def)
  qed
qed

lemma commas_hours:
  assumes "(count = 0 \<and> re = []) \<or> (count = 1 \<and> re \<noteq> [] \<and> commas re = 0)"
  shows "commas (uiDuration_hours re d count) \<le> 1"
proof (cases "d \<ge> 60 * 60")
  case False
  then show ?thesis
    using commas_minutes [OF assms, of d] by (simp add: uiDuration_hours_def)
next
  case True
  let ?re = "durationWord re (c_div d (60 * 60)) ''hour''"
  have c: "commas ?re = commas re + (if re = [] then 0 else 1)"
    by (simp add: commas_durationWord commas_units)
  from assms show ?thesis
  proof
    assume a: "count = 0 \<and> re = []"
    then have "commas ?re = 0" using c by (simp add: commas_Nil)
    then have "commas (uiDuration_minutes ?re (c_mod d (60 * 60)) 1) \<le> 1"
      by (intro commas_minutes) (simp add: durationWord_nonempty)
    with a True show ?thesis by (simp add: uiDuration_hours_def Let_def)
  next
    assume a: "count = 1 \<and> re \<noteq> [] \<and> commas re = 0"
    then have "commas ?re = 1" using c by simp
    with a True show ?thesis by (simp add: uiDuration_hours_def Let_def)
  qed
qed

lemma commas_days:
  "commas (if d \<ge> 60 * 60 * 24 then
             uiDuration_hours (durationWord [] (c_div d (60 * 60 * 24)) ''day'')
               (c_mod d (60 * 60 * 24)) (0 + 1)
           else uiDuration_hours [] d 0) \<le> 1"
proof -
  let ?re = "durationWord [] (c_div d (60 * 60 * 24)) ''day''"
  have "commas ?re = 0"
    by (simp add: commas_durationWord commas_units commas_Nil)
  then have 1: "commas (uiDuration_hours ?re (c_mod d (60 * 60 * 24)) 1) \<le> 1"
    by (intro commas_hours) (simp add: durationWord_nonempty)
  have 2: "commas (uiDuration_hours [] d 0) \<le> 1"
    by (intro commas_hours) simp
  from 1 2 show ?thesis by simp
qed

lemma commas_uiDuration:
  assumes "\<not> inProgress e"
  shows "commas (uiDuration tr e) \<le> 1"
  using assms commas_days [of "max 1 (durationInSeconds e)"]
  unfolding uiDuration_def Let_def by (simp only: if_False)

lemma stored_duration:
  "- 1 \<le> d \<Longrightarrow> durationInSeconds (setDurationInSeconds d e) = d"
  by (simp add: durationInSeconds_def setDurationInSeconds_def)

lemma uiDuration_days_hours:
  assumes "60 * 60 * 24 \<le> d" and "60 * 60 \<le> c_mod d (60 * 60 * 24)"
  shows "uiDuration tr (setDurationInSeconds d e) =
    durationWord (durationWord [] (c_div d (60 * 60 * 24)) ''day'')
      (c_div (c_mod d (60 * 60 * 24)) (60 * 60)) ''hour''"
proof -
  from assms have "durationInSeconds (setDurationInSeconds d e) = d"
    by (intro stored_duration) simp
  with assms show ?thesis
    by (simp add: uiDuration_def inProgress_def uiDuration_hours_def Let_def)
qed

lemma uiDuration_days_minutes:
  assumes "60 * 60 * 24 \<le> d" and "c_mod d (60 * 60 * 24) < 60 * 60"
    and "60 \<le> c_mod d (60 * 60 * 24)"
  shows "uiDuration tr (setDurationInSeconds d e) =
    durationWord (durationWord [] (c_div d (60 * 60 * 24)) ''day'')
      (c_div (c_mod d (60 * 60 * 24)) 60) ''minute''"
proof -
  from assms have "durationInSeconds (setDurationInSeconds d e) = d"
    by (intro stored_duration) simp
  with assms show ?thesis
    by (simp add: uiDuration_def inProgress_def uiDuration_hours_def uiDuration_minutes_def
        Let_def)
qed

lemma uiDuration_hours_minutes:
  assumes "d < 60 * 60 * 24" and "60 * 60 \<le> d" and "60 \<le> c_mod d (60 * 60)"
  shows "uiDuration tr (setDurationInSeconds d e) =
    durationWord (durationWord [] (c_div d (60 * 60)) ''hour'')
      (c_div (c_mod d (60 * 60)) 60) ''minute''"
proof -
  from assms have "durationInSeconds (setDurationInSeconds d e) = d"
    by (intro stored_duration) simp
  with assms show ?thesis
    by (simp add: uiDuration_def inProgress_def uiDuration_hours_def uiDuration_minutes_def
        Let_def)
qed

text \<open>
  C10. When the event is not in progress, the string of \<open>uiDuration\<close> has at most one
  comma, that is at most two terms. Once two of the days, hours and minutes are written
  the function returns, and the string is these two terms whatever is left of the
  duration: 90061 seconds, which are 1 day, 1 hour, 1 minute and 1 second, are written
  \<open>1 day, 1 hour\<close>.
\<close>

theorem uiDuration_at_most_two_terms:
  "(\<not> inProgress e \<longrightarrow> commas (uiDuration tr e) \<le> 1) \<and>
   (60 * 60 * 24 \<le> d \<and> 60 * 60 \<le> c_mod d (60 * 60 * 24) \<longrightarrow>
      uiDuration tr (setDurationInSeconds d e) =
        durationWord (durationWord [] (c_div d (60 * 60 * 24)) ''day'')
          (c_div (c_mod d (60 * 60 * 24)) (60 * 60)) ''hour'') \<and>
   (60 * 60 * 24 \<le> d \<and> c_mod d (60 * 60 * 24) < 60 * 60 \<and>
    60 \<le> c_mod d (60 * 60 * 24) \<longrightarrow>
      uiDuration tr (setDurationInSeconds d e) =
        durationWord (durationWord [] (c_div d (60 * 60 * 24)) ''day'')
          (c_div (c_mod d (60 * 60 * 24)) 60) ''minute'') \<and>
   (d < 60 * 60 * 24 \<and> 60 * 60 \<le> d \<and> 60 \<le> c_mod d (60 * 60) \<longrightarrow>
      uiDuration tr (setDurationInSeconds d e) =
        durationWord (durationWord [] (c_div d (60 * 60)) ''hour'')
          (c_div (c_mod d (60 * 60)) 60) ''minute'') \<and>
   uiDuration tr (setDurationInSeconds 90061 e) = ''1 day, 1 hour''"
proof (intro conjI impI)
  assume "\<not> inProgress e"
  then show "commas (uiDuration tr e) \<le> 1" by (rule commas_uiDuration)
next
  assume "60 * 60 * 24 \<le> d \<and> 60 * 60 \<le> c_mod d (60 * 60 * 24)"
  then show "uiDuration tr (setDurationInSeconds d e) =
        durationWord (durationWord [] (c_div d (60 * 60 * 24)) ''day'')
          (c_div (c_mod d (60 * 60 * 24)) (60 * 60)) ''hour''"
    by (intro uiDuration_days_hours) simp_all
next
  assume "60 * 60 * 24 \<le> d \<and> c_mod d (60 * 60 * 24) < 60 * 60 \<and>
    60 \<le> c_mod d (60 * 60 * 24)"
  then show "uiDuration tr (setDurationInSeconds d e) =
        durationWord (durationWord [] (c_div d (60 * 60 * 24)) ''day'')
          (c_div (c_mod d (60 * 60 * 24)) 60) ''minute''"
    by (intro uiDuration_days_minutes) simp_all
next
  assume "d < 60 * 60 * 24 \<and> 60 * 60 \<le> d \<and> 60 \<le> c_mod d (60 * 60)"
  then show "uiDuration tr (setDurationInSeconds d e) =
        durationWord (durationWord [] (c_div d (60 * 60)) ''hour'')
          (c_div (c_mod d (60 * 60)) 60) ''minute''"
    by (intro uiDuration_hours_minutes) simp_all
next
  show "uiDuration tr (setDurationInSeconds 90061 e) = ''1 day, 1 hour''"
    by (simp add: uiDuration_defs)
qed

lemmas durationWord_defs =
  durationWord_def number_def digits.simps digitChar_def c_div_def c_mod_def

theorem uiDuration_at_most_two_terms_witness:
  "\<not> inProgress (setDurationInSeconds 90061 sampleEvent) \<and>
   commas (uiDuration untranslated (setDurationInSeconds 90061 sampleEvent)) \<le> 1 \<and>
   (60 * 60 * 24 \<le> (90061 :: int) \<and> 60 * 60 \<le> c_mod 90061 (60 * 60 * 24)) \<and>
   uiDuration untranslated (setDurationInSeconds 90061 sampleEvent) = ''1 day, 1 hour'' \<and>
   (60 * 60 * 24 \<le> (86461 :: int) \<and> c_mod 86461 (60 * 60 * 24) < 60 * 60 \<and>
    60 \<le> c_mod 86461 (60 * 60 * 24)) \<and>
   uiDuration untranslated (setDurationInSeconds 86461 sampleEvent) = ''1 day, 1 minute'' \<and>
   ((3661 :: int) < 60 * 60 * 24 \<and> 60 * 60 \<le> (3661 :: int) \<and> 60 \<le> c_mod 3661 (60 * 60)) \<and>
   uiDuration untranslated (setDurationInSeconds 3661 sampleEvent) = ''1 hour, 1 minute''"
proof -
  have p: "\<not> inProgress (setDurationInSeconds 90061 sampleEvent)"
    by (simp add: inProgress_def stored_duration)
  have h1: "60 * 60 * 24 \<le> (90061 :: int) \<and> 60 * 60 \<le> c_mod 90061 (60 * 60 * 24)"
    by (simp add: c_mod_def c_div_def)
  have h2: "60 * 60 * 24 \<le> (86461 :: int) \<and> c_mod 86461 (60 * 60 * 24) < 60 * 60 \<and>
      60 \<le> c_mod 86461 (60 * 60 * 24)"
    by (simp add: c_mod_def c_div_def)
  have h3: "(3661 :: int) < 60 * 60 * 24 \<and> 60 * 60 \<le> (3661 :: int) \<and>
      60 \<le> c_mod 3661 (60 * 60)"
    by (simp add: c_mod_def c_div_def)
  from uiDuration_at_most_two_terms
      [of "setDurationInSeconds 90061 sampleEvent" untranslated 90061] p
  have c: "commas (uiDuration untranslated (setDurationInSeconds 90061 sampleEvent)) \<le> 1"
    by blast
  from uiDuration_at_most_two_terms [of sampleEvent untranslated 90061] h1
  have "uiDuration untranslated (setDurationInSeconds 90061 sampleEvent) =
      durationWord (durationWord [] (c_div 90061 (60 * 60 * 24)) ''day'')
        (c_div (c_mod 90061 (60 * 60 * 24)) (60 * 60)) ''hour''"
    by blast
  then have s1: "uiDuration untranslated (setDurationInSeconds 90061 sampleEvent) =
      ''1 day, 1 hour''"
    by (simp add: durationWord_defs)
  from uiDuration_at_most_two_terms [of sampleEvent untranslated 86461] h2
  have "uiDuration untranslated (setDurationInSeconds 86461 sampleEvent) =
      durationWord (durationWord [] (c_div 86461 (60 * 60 * 24)) ''day'')
        (c_div (c_mod 86461 (60 * 60 * 24)) 60) ''minute''"
    by blast
  then have s2: "uiDuration untranslated (setDurationInSeconds 86461 sampleEvent) =
      ''1 day, 1 minute''"
    by (simp add: durationWord_defs)
  from uiDuration_at_most_two_terms [of sampleEvent untranslated 3661] h3
  have "uiDuration untranslated (setDurationInSeconds 3661 sampleEvent) =
      durationWord (durationWord [] (c_div 3661 (60 * 60)) ''hour'')
        (c_div (c_mod 3661 (60 * 60)) 60) ''minute''"
    by blast
  then have s3: "uiDuration untranslated (setDurationInSeconds 3661 sampleEvent) =
      ''1 hour, 1 minute''"
    by (simp add: durationWord_defs)
  from p c h1 s1 h2 s2 h3 s3 show ?thesis by blast
qed

text \<open>
  C1 (as stated, it fails at 0 seconds). The claim has 0 seconds written \<open>0 seconds\<close>;
  \<open>uiDuration\<close> raises the duration to at least 1 before it formats, so the string is
  \<open>1 second\<close>.
\<close>

theorem uiDuration_zero_counterexample:
  "uiDuration untranslated (setDurationInSeconds 0 sampleEvent) \<noteq> ''0 seconds''"
  by (simp add: uiDuration_defs sampleEvent_def)

text \<open>
  C1 (amended). An event that is not in progress and has a duration of 0 seconds is
  written \<open>1 second\<close>, one of 90 seconds \<open>1 minute, 30 seconds\<close>, and one of 86400
  seconds \<open>1 day\<close>.
\<close>

theorem uiDuration_boundaries:
  "uiDuration tr (setDurationInSeconds 0 e) = ''1 second'' \<and>
   uiDuration tr (setDurationInSeconds 90 e) = ''1 minute, 30 seconds'' \<and>
   uiDuration tr (setDurationInSeconds 86400 e) = ''1 day''"
proof (intro conjI)
  show "uiDuration tr (setDurationInSeconds 0 e) = ''1 second''"
    by (simp add: uiDuration_defs)
  show "uiDuration tr (setDurationInSeconds 90 e) = ''1 minute, 30 seconds''"
    by (simp add: uiDuration_defs)
  show "uiDuration tr (setDurationInSeconds 86400 e) = ''1 day''"
    by (simp add: uiDuration_defs)
qed

theorem uiDuration_boundaries_witness:
  "\<not> inProgress (setDurationInSeconds 0 sampleEvent) \<and>
   uiDuration untranslated (setDurationInSeconds 0 sampleEvent) = ''1 second'' \<and>
   uiDuration untranslated (setDurationInSeconds 90 sampleEvent) = ''1 minute, 30 seconds'' \<and>
   uiDuration untranslated (setDurationInSeconds 86400 sampleEvent) = ''1 day''"
  using uiDuration_boundaries [of untranslated sampleEvent]
  by (simp add: inProgress_def durationInSeconds_def setDurationInSeconds_def)

subsection \<open>Levels and types\<close>

text \<open>
  C6. A level code that is assigned and then displayed gives the display name of its
  level, and so does a type code, under every translation \<open>tr\<close>: the string is the
  translation of the name, and the name itself where nothing is translated.
\<close>

theorem codes_to_display_names:
  "map (\<lambda>code. EventLevel_uiString tr (fst (EventLevel_assign l code)))
     [''info'', ''warn'', ''alrm'', ''critical''] =
   map (tr ''EventLevel'') [''Info'', ''Warning'', ''Alarm'', ''Critical''] \<and>
   map (\<lambda>code. EventType_uiString tr (fst (EventType_assign t code)))
     [''motion'', ''continuous'', ''not found'', ''video signal loss'', ''audio signal loss'',
      ''disk-space'', ''crash'', ''boot'', ''shutdown'', ''reboot'', ''power-outage''] =
   map (tr ''EventType'')
     [''Motion'', ''Continuous'', ''Not Found'', ''Video Lost'', ''Audio Lost'',
      ''Disk Space'', ''Crash'', ''Startup'', ''Shutdown'', ''Reboot'', ''Power Lost''] \<and>
   map (\<lambda>code. EventLevel_uiString untranslated (fst (EventLevel_assign l code)))
     [''info'', ''warn'', ''alrm'', ''critical''] =
   [''Info'', ''Warning'', ''Alarm'', ''Critical''] \<and>
   map (\<lambda>code. EventType_uiString untranslated (fst (EventType_assign t code)))
     [''motion'', ''continuous'', ''not found'', ''video signal loss'', ''audio signal loss'',
      ''disk-space'', ''crash'', ''boot'', ''shutdown'', ''reboot'', ''power-outage''] =
   [''Motion'', ''Continuous'', ''Not Found'', ''Video Lost'', ''Audio Lost'',
    ''Disk Space'', ''Crash'', ''Startup'', ''Shutdown'', ''Reboot'', ''Power Lost'']"
proof (intro conjI)
  show "map (\<lambda>code. EventLevel_uiString tr (fst (EventLevel_assign l code)))
     [''info'', ''warn'', ''alrm'', ''critical''] =
   map (tr ''EventLevel'') [''Info'', ''Warning'', ''Alarm'', ''Critical'']"
    by (simp add: EventLevel_uiString_def EventLevel_assign_def)
  show "map (\<lambda>code. EventType_uiString tr (fst (EventType_assign t code)))
     [''motion'', ''continuous'', ''not found'', ''video signal loss'', ''audio signal loss'',
      ''disk-space'', ''crash'', ''boot'', ''shutdown'', ''reboot'', ''power-outage''] =
   map (tr ''EventType'')
     [''Motion'', ''Continuous'', ''Not Found'', ''Video Lost'', ''Audio Lost'',
      ''Disk Space'', ''Crash'', ''Startup'', ''Shutdown'', ''Reboot'', ''Power Lost'']"
    by (simp add: EventType_uiString_def EventType_assign_def)
  show "map (\<lambda>code. EventLevel_uiString untranslated (fst (EventLevel_assign l code)))
     [''info'', ''warn'', ''alrm'', ''critical''] =
   [''Info'', ''Warning'', ''Alarm'', ''Critical'']"
    by (simp add: EventLevel_uiString_def EventLevel_assign_def untranslated_def)
  show "map (\<lambda>code. EventType_uiString untranslated (fst (EventType_assign t code)))
     [''motion'', ''continuous'', ''not found'', ''video signal loss'', ''audio signal loss'',
      ''disk-space'', ''crash'', ''boot'', ''shutdown'', ''reboot'', ''power-outage''] =
   [''Motion'', ''Continuous'', ''Not Found'', ''Video Lost'', ''Audio Lost'',
    ''Disk Space'', ''Crash'', ''Startup'', ''Shutdown'', ''Reboot'', ''Power Lost'']"
    by (simp add: EventType_uiString_def EventType_assign_def untranslated_def)
qed

subsection \<open>Durations\<close>

text \<open>
  C4. After \<open>setDurationInSeconds d\<close> the stored duration is the larger of \<open>d\<close> and -1, so
  it is not below -1; \<open>setInProgress\<close> stores -1, after which the event is in progress;
  and an event is in progress exactly when its stored duration is negative.
\<close>

theorem duration_clamped:
  "durationInSeconds (setDurationInSeconds d e) = max d (- 1) \<and>
   - 1 \<le> durationInSeconds (setDurationInSeconds d e) \<and>
   durationInSeconds (setInProgress e) = - 1 \<and>
   inProgress (setInProgress e) \<and>
   inProgress e = (durationInSeconds e < 0)"
  by (simp add: setDurationInSeconds_def setInProgress_def durationInSeconds_def
      inProgress_def)

text \<open>
  C9. \<open>hasDuration\<close> holds exactly for a stored duration above 0 and \<open>inProgress\<close> exactly
  for one below 0. At a stored duration of 0 both are false, and the local end date is
  the local start date.
\<close>

theorem zero_duration:
  "hasDuration e = (durationInSeconds e > 0) \<and>
   inProgress e = (durationInSeconds e < 0) \<and>
   (durationInSeconds e = 0 \<longrightarrow>
      \<not> hasDuration e \<and> \<not> inProgress e \<and> localEndDate e = localStartDate e)"
  by (simp add: hasDuration_def inProgress_def durationInSeconds_def localEndDate_def
      localStartDate_def addSecs_def)

theorem zero_duration_witness:
  "durationInSeconds (setDurationInSeconds 0 sampleEvent) = 0 \<and>
   \<not> hasDuration (setDurationInSeconds 0 sampleEvent) \<and>
   \<not> inProgress (setDurationInSeconds 0 sampleEvent) \<and>
   localEndDate (setDurationInSeconds 0 sampleEvent) =
     localStartDate (setDurationInSeconds 0 sampleEvent)"
proof -
  have d: "durationInSeconds (setDurationInSeconds 0 sampleEvent) = 0"
    by (simp add: durationInSeconds_def setDurationInSeconds_def)
  with zero_duration [of "setDurationInSeconds 0 sampleEvent"] show ?thesis
    by blast
qed

subsection \<open>Server dates\<close>

text \<open>
  C5. \<open>serverEndDate\<close> returns what \<open>serverStartDate\<close> returns, whatever the duration:
  the date that \<open>addSecs\<close> computes is dropped. (When the assertion of \<open>serverStartDate\<close>
  fails, it fails in both.)
\<close>

theorem serverEndDate_is_serverStartDate:
  "serverEndDate tz e = serverStartDate tz e"
  by (simp add: serverEndDate_def Let_def split: sum.split)

lemma sint_tz_bounds:
  fixes m :: "16 word"
  shows "- 32768 \<le> sint m" and "sint m \<le> 32767"
  using sint_ge [of m] sint_lt [of m] by simp_all

text \<open>
  C8. When the UTC start date has time specification UTC, \<open>serverStartDate\<close> returns
  that date moved forward by the server's offset in seconds (the minutes times 60, which
  fits an \<open>int\<close>), with the offset from UTC set to the same seconds. The date and time
  shown are therefore those of UTC plus the offset, at the offset of the server, and the
  instant is the one of the UTC start date. The offset is the one that
  \<open>setServerDateTzOffsetMins\<close> stored.
\<close>

theorem serverStartDate_shifted:
  assumes "timeSpec (utcStartDate e) = UTC"
  shows
    "serverStartDate tz e =
       Inr (setUtcOffset tz
              (addSecs (utcStartDate e) (sint (serverDateTzOffsetMins e) * 60))
              (sint (serverDateTzOffsetMins e) * 60)) \<and>
     (\<exists>r. serverStartDate tz e = Inr r \<and>
        utcOffset r = sint (serverDateTzOffsetMins e) * 60 \<and>
        wallClock tz r =
          wallClock tz (utcStartDate e) + sint (serverDateTzOffsetMins e) * 60 * 1000 \<and>
        msecsSinceEpoch r = msecsSinceEpoch (utcStartDate e)) \<and>
     - (2 ^ 31) \<le> sint (serverDateTzOffsetMins e) * 60 \<and>
     sint (serverDateTzOffsetMins e) * 60 < 2 ^ 31 \<and>
     serverDateTzOffsetMins (setServerDateTzOffsetMins m e) = m \<and>
     utcStartDate (setServerDateTzOffsetMins m e) = utcStartDate e"
proof (intro conjI)
  let ?s = "sint (serverDateTzOffsetMins e) * 60"
  let ?r = "setUtcOffset tz (addSecs (utcStartDate e) ?s) ?s"
  from assms show eq: "serverStartDate tz e = Inr ?r"
    by (simp add: serverStartDate_def utcStartDate_def Let_def)
  have "utcOffset ?r = ?s"
    by (simp add: setUtcOffset_def)
  moreover from assms have "wallClock tz ?r = wallClock tz (utcStartDate e) + ?s * 1000"
    by (simp add: setUtcOffset_def addSecs_def wallClock_def offsetFromUtc_def)
  moreover from assms have "msecsSinceEpoch ?r = msecsSinceEpoch (utcStartDate e)"
    by (simp add: setUtcOffset_def addSecs_def wallClock_def offsetFromUtc_def)
  ultimately show "\<exists>r. serverStartDate tz e = Inr r \<and>
        utcOffset r = ?s \<and>
        wallClock tz r = wallClock tz (utcStartDate e) + ?s * 1000 \<and>
        msecsSinceEpoch r = msecsSinceEpoch (utcStartDate e)"
    using eq by blast
  show "- (2 ^ 31) \<le> ?s" "?s < 2 ^ 31"
    using sint_tz_bounds [of "serverDateTzOffsetMins e"] by simp_all
  show "serverDateTzOffsetMins (setServerDateTzOffsetMins m e) = m"
    by (simp add: serverDateTzOffsetMins_def setServerDateTzOffsetMins_def)
  show "utcStartDate (setServerDateTzOffsetMins m e) = utcStartDate e"
    by (simp add: utcStartDate_def setServerDateTzOffsetMins_def)
qed

theorem serverStartDate_shifted_witness:
  "timeSpec (utcStartDate sampleEvent) = UTC \<and>
   serverStartDate sampleZone sampleEvent =
     Inr \<lparr>msecsSinceEpoch = 1600000000000, timeSpec = OffsetFromUTC, utcOffset = - 18000\<rparr>"
proof -
  have u: "timeSpec (utcStartDate sampleEvent) = UTC"
    by (simp add: utcStartDate_def sampleEvent_def)
  have o: "sint (serverDateTzOffsetMins sampleEvent) = - 300"
    by (simp add: serverDateTzOffsetMins_def sampleEvent_def)
  from serverStartDate_shifted [OF u, of sampleZone] have
    "serverStartDate sampleZone sampleEvent =
       Inr (setUtcOffset sampleZone
              (addSecs (utcStartDate sampleEvent) (sint (serverDateTzOffsetMins sampleEvent) * 60))
              (sint (serverDateTzOffsetMins sampleEvent) * 60))"
    by blast
  then have "serverStartDate sampleZone sampleEvent =
      Inr \<lparr>msecsSinceEpoch = 1600000000000, timeSpec = OffsetFromUTC, utcOffset = - 18000\<rparr>"
    by (simp add: o) (simp add: utcStartDate_def sampleEvent_def setUtcOffset_def addSecs_def
        wallClock_def offsetFromUtc_def)
  with u show ?thesis by simp
qed

subsection \<open>The UTC start date\<close>

lemma setUtcStartDate_stores:
  "utcStartDate (setUtcStartDate d e) = d \<and>
   localStartDate (setUtcStartDate d e) = toLocalTime d"
  by (simp add: setUtcStartDate_def utcStartDate_def localStartDate_def)

lemma serverStartDate_asserts:
  "(serverStartDate tz (setUtcStartDate d e) = Inl AssertionFailed) = (timeSpec d \<noteq> UTC)"
  by (simp add: serverStartDate_def setUtcStartDate_def Let_def)

text \<open>
  C7 (the code at an argument in local time). \<open>setUtcStartDate\<close> stores its argument as
  it is. With a date whose time specification is \<open>LocalTime\<close>, the stored UTC start date
  has that specification, and the assertion of \<open>serverStartDate\<close> fails. The local start
  date is the argument converted to local time, as the claim has it.
\<close>

theorem setUtcStartDate_local_argument:
  "timeSpec (utcStartDate (setUtcStartDate sampleLocalDate sampleEvent)) = LocalTime \<and>
   serverStartDate sampleZone (setUtcStartDate sampleLocalDate sampleEvent) =
     Inl AssertionFailed \<and>
   localStartDate (setUtcStartDate sampleLocalDate sampleEvent) =
     toLocalTime sampleLocalDate"
  by (simp add: setUtcStartDate_def utcStartDate_def localStartDate_def serverStartDate_def
      sampleLocalDate_def)

subsection \<open>Locations\<close>

lemma uint_to_int_small: "v < 2 ^ 31 \<Longrightarrow> uint_to_int v = int v"
  by (simp add: uint_to_int_def Let_def)

lemma setLocation_camera:
  assumes "startsWith location ''camera-''" and "toUInt (mid location 7) = (v, True)"
  shows "setLocation toUInt location e = (e\<lparr>m_locationId := uint_to_int v\<rparr>, [])"
  using assms by (simp add: setLocation_def)

lemma setLocation_system:
  "setLocation toUInt ''system'' e = (e\<lparr>m_locationId := - 1\<rparr>, [])"
  by (simp add: setLocation_def startsWith_def)

lemma setLocation_invalid:
  assumes "location \<noteq> ''system''"
    and "\<not> (startsWith location ''camera-'' \<and> snd (toUInt (mid location 7)))"
  shows "setLocation toUInt location e =
    (e\<lparr>m_locationId := - 1\<rparr>, [invalidLocation location])"
  using assms by (auto simp: setLocation_def split: prod.splits)

text \<open>
  C3 (the code at camera numbers from \<open>2 ^ 31\<close> on). \<open>toUInt\<close> reads every number below
  \<open>2 ^ 32\<close>, and the assignment to the \<open>int\<close> member wraps the upper half around: the
  location \<open>camera-4294967295\<close> gives the location id -1, which is the marker of the
  system, and \<open>camera-2147483648\<close> gives -2147483648, both without a warning.
\<close>

theorem setLocation_wraps:
  "setLocation decimalToUInt ''camera-4294967295'' sampleEvent =
     (sampleEvent\<lparr>m_locationId := - 1\<rparr>, []) \<and>
   setLocation decimalToUInt ''camera-2147483648'' sampleEvent =
     (sampleEvent\<lparr>m_locationId := - 2147483648\<rparr>, [])"
  by (simp add: setLocation_def startsWith_def mid_def decimalToUInt_def isDigit_def
      digitsValue_def uint_to_int_def)

subsection \<open>Strings that are not recognized\<close>

text \<open>
  C2 (as stated, it fails for levels and types). The claim has a log line written in
  each of the three cases; the assignments of a level and of a type write none.
\<close>

theorem assign_logs_nothing_counterexample:
  "EventLevel_assign \<lparr>level = Critical\<rparr> ''bogus'' = (\<lparr>level = Info\<rparr>, []) \<and>
   EventType_assign \<lparr>type = SystemBoot\<rparr> ''bogus'' = (\<lparr>type = UnknownType\<rparr>, [])"
  by (simp add: EventLevel_assign_def EventType_assign_def)

text \<open>
  C2 (amended). A string that is none of the level codes (\<open>info\<close>, \<open>warn\<close>, \<open>alrm\<close>,
  \<open>alarm\<close>, \<open>critical\<close>) sets the level \<open>Info\<close>, and a string that is none of the type
  codes sets the type \<open>UnknownType\<close>, both without a log line. A location that is not
  \<open>system\<close> and not \<open>camera-\<close> with a rest that \<open>toUInt\<close> reads sets the location id -1
  and writes one log line, \<open>Invalid event location\<close> with the string. Each of the three
  returns: none has an error branch.
\<close>

theorem unrecognized_defaults:
  "(str \<notin> {''info'', ''warn'', ''alrm'', ''alarm'', ''critical''} \<longrightarrow>
      EventLevel_assign l str = (l\<lparr>level := Info\<rparr>, [])) \<and>
   (str \<notin> {''motion'', ''continuous'', ''not found'', ''video signal loss'',
            ''audio signal loss'', ''disk-space'', ''crash'', ''boot'', ''shutdown'',
            ''reboot'', ''power-outage''} \<longrightarrow>
      EventType_assign t str = (t\<lparr>type := UnknownType\<rparr>, [])) \<and>
   (location \<noteq> ''system'' \<and>
    \<not> (startsWith location ''camera-'' \<and> snd (toUInt (mid location 7))) \<longrightarrow>
      setLocation toUInt location e =
        (e\<lparr>m_locationId := - 1\<rparr>, [[''Invalid event location'', location]]))"
proof (intro conjI impI)
  assume "str \<notin> {''info'', ''warn'', ''alrm'', ''alarm'', ''critical''}"
  then show "EventLevel_assign l str = (l\<lparr>level := Info\<rparr>, [])"
    by (simp add: EventLevel_assign_def)
next
  assume "str \<notin> {''motion'', ''continuous'', ''not found'', ''video signal loss'',
            ''audio signal loss'', ''disk-space'', ''crash'', ''boot'', ''shutdown'',
            ''reboot'', ''power-outage''}"
  then show "EventType_assign t str = (t\<lparr>type := UnknownType\<rparr>, [])"
    by (simp add: EventType_assign_def)
next
  assume "location \<noteq> ''system'' \<and>
    \<not> (startsWith location ''camera-'' \<and> snd (toUInt (mid location 7)))"
  then show "setLocation toUInt location e =
        (e\<lparr>m_locationId := - 1\<rparr>, [[''Invalid event location'', location]])"
    using setLocation_invalid [of location toUInt e] by (simp add: invalidLocation_def)
qed

theorem unrecognized_defaults_witness:
  "''bogus'' \<notin> {''info'', ''warn'', ''alrm'', ''alarm'', ''critical''} \<and>
   ''bogus'' \<notin> {''motion'', ''continuous'', ''not found'', ''video signal loss'',
            ''audio signal loss'', ''disk-space'', ''crash'', ''boot'', ''shutdown'',
            ''reboot'', ''power-outage''} \<and>
   ''camera-1x'' \<noteq> ''system'' \<and>
   \<not> (startsWith ''camera-1x'' ''camera-'' \<and> snd (decimalToUInt (mid ''camera-1x'' 7))) \<and>
   EventLevel_assign \<lparr>level = Critical\<rparr> ''bogus'' = (\<lparr>level = Info\<rparr>, []) \<and>
   EventType_assign \<lparr>type = SystemBoot\<rparr> ''bogus'' = (\<lparr>type = UnknownType\<rparr>, []) \<and>
   setLocation decimalToUInt ''camera-1x'' sampleEvent =
     (sampleEvent\<lparr>m_locationId := - 1\<rparr>, [[''Invalid event location'', ''camera-1x'']])"
proof -
  have a: "''bogus'' \<notin> {''info'', ''warn'', ''alrm'', ''alarm'', ''critical''}"
    by simp
  have b: "''bogus'' \<notin> {''motion'', ''continuous'', ''not found'', ''video signal loss'',
            ''audio signal loss'', ''disk-space'', ''crash'', ''boot'', ''shutdown'',
            ''reboot'', ''power-outage''}"
    by simp
  have c: "''camera-1x'' \<noteq> ''system''"
    by simp
  have d: "\<not> (startsWith ''camera-1x'' ''camera-'' \<and> snd (decimalToUInt (mid ''camera-1x'' 7)))"
    by (simp add: mid_def decimalToUInt_def isDigit_def)
  note t = unrecognized_defaults [of "''bogus''" "\<lparr>level = Critical\<rparr>" "\<lparr>type = SystemBoot\<rparr>"
      "''camera-1x''" decimalToUInt sampleEvent]
  from t a have 1: "EventLevel_assign \<lparr>level = Critical\<rparr> ''bogus'' = (\<lparr>level = Info\<rparr>, [])"
    by simp
  from t b have 2: "EventType_assign \<lparr>type = SystemBoot\<rparr> ''bogus'' = (\<lparr>type = UnknownType\<rparr>, [])"
    by simp
  from t c d have 3: "setLocation decimalToUInt ''camera-1x'' sampleEvent =
     (sampleEvent\<lparr>m_locationId := - 1\<rparr>, [[''Invalid event location'', ''camera-1x'']])"
    by blast
  from a b c d 1 2 3 show ?thesis by blast
qed

end
